theory Spec2Isabelle
  imports Main
begin

section \<open>Values, errors and responses\<close>

text \<open>
  The controller \<^verbatim>\<open>src/controllers/user.controller.js\<close> is embedded as pure functions over
  an explicit user collection. A thrown JavaScript error is the \<open>Inl\<close> branch of a sum.
\<close>

type_synonym object_id = string

text \<open>The claims of a JSON web token: \<^verbatim>\<open>_id\<close>, \<^verbatim>\<open>iat\<close> and \<^verbatim>\<open>exp\<close> (seconds).\<close>

record payload =
  payload_id :: object_id
  iat :: nat
  exp :: nat

text \<open>
  A token is a string. Its content is kept symbolic. \<open>Jwt w p k\<close> is the three-part string
  that decodes to the claims \<open>p\<close> and whose signature is the one the key \<open>k\<close> gives; \<open>w\<close>
  is the wording of its header and claims (the order of the fields, the header's optional
  fields), so two tokens with the same claims under the same key are the same string only
  when their wording is the same. \<open>Opaque s\<close> is any other string \<open>s\<close>, the empty one
  included. Equality of two values of this type is equality of the strings.
\<close>

datatype token = Jwt string payload string | Opaque string

datatype jsval =
    Undefined
  | Null
  | Bool bool
  | Str string
  | Tok token
  | Obj "(string \<times> jsval) list"

text \<open>Property access \<^verbatim>\<open>o.k\<close> and destructuring \<^verbatim>\<open>const { k } = o\<close>: a missing key is \<^verbatim>\<open>undefined\<close>.\<close>

definition get_prop :: "(string \<times> jsval) list \<Rightarrow> string \<Rightarrow> jsval" where
  "get_prop obj k = (case map_of obj k of None \<Rightarrow> Undefined | Some v \<Rightarrow> v)"

datatype exn =
    ApiError nat string
  | JsonWebTokenError string
  | TokenExpiredError string
  | Error string

fun message :: "exn \<Rightarrow> string" where
  "message (ApiError statusCode m) = m"
| "message (JsonWebTokenError m) = m"
| "message (TokenExpiredError m) = m"
| "message (Error m) = m"

text \<open>
  Modelled from the spec: \<^verbatim>\<open>utils/ApiResponse.js\<close> is not among the sources; the envelope
  has a status, the data and a message.
\<close>

record api_response =
  statusCode :: nat
  data :: jsval
  response_message :: string

text \<open>What a handler sends: the status, the \<^verbatim>\<open>res.cookie(name, value, options)\<close> calls in order, the JSON body.\<close>

record response =
  status :: nat
  cookies :: "(string \<times> jsval \<times> jsval) list"
  body :: api_response

definition cookie_value :: "response \<Rightarrow> string \<Rightarrow> jsval" where
  "cookie_value res name = (case map_of (cookies res) name of None \<Rightarrow> Undefined | Some (v, opts) \<Rightarrow> v)"

section \<open>The user collection\<close>

text \<open>
  Modelled from the spec: the schema of \<^verbatim>\<open>models/user.model.js\<close> is not among the sources.
  The fields are those the controller passes to \<^verbatim>\<open>User.create\<close> and the refresh token it
  assigns; \<open>None\<close> is an absent (undefined or null) \<^verbatim>\<open>refreshToken\<close>.
\<close>

record user =
  user_id :: object_id
  username :: string
  email :: string
  fullName :: string
  avatar :: string
  coverImage :: string
  password :: string
  refreshToken :: "token option"

definition findById :: "user list \<Rightarrow> object_id \<Rightarrow> user option" where
  "findById us i = find (\<lambda>d. user_id d = i) us"

text \<open>One clause \<^verbatim>\<open>{ field: value }\<close> of a query; an undefined value selects no stored string.\<close>

fun field_is :: "string option \<Rightarrow> string \<Rightarrow> bool" where
  "field_is None stored = False"
| "field_is (Some v) stored = (v = stored)"

text \<open>\<^verbatim>\<open>User.findOne({ $or: [{ username }, { email }] })\<close>\<close>

definition findOne :: "user list \<Rightarrow> string option \<Rightarrow> string option \<Rightarrow> user option" where
  "findOne us un em = find (\<lambda>d. field_is un (username d) \<or> field_is em (email d)) us"

fun replace_by_id :: "object_id \<Rightarrow> user \<Rightarrow> user list \<Rightarrow> user list" where
  "replace_by_id i d' [] = []"
| "replace_by_id i d' (d # ds) = (if user_id d = i then d' # ds else d # replace_by_id i d' ds)"

text \<open>\<^verbatim>\<open>user.save({ validateBeforeSave: false })\<close>: the document with this \<^verbatim>\<open>_id\<close> is written back.\<close>

definition save :: "user \<Rightarrow> user list \<Rightarrow> user list" where
  "save u us = replace_by_id (user_id u) u us"

definition toObject :: "user \<Rightarrow> (string \<times> jsval) list" where
  "toObject u =
     [(''_id'', Str (user_id u)), (''username'', Str (username u)), (''email'', Str (email u)),
      (''fullName'', Str (fullName u)), (''avatar'', Str (avatar u)),
      (''coverImage'', Str (coverImage u)), (''password'', Str (password u))]
     @ (case refreshToken u of None \<Rightarrow> [] | Some t \<Rightarrow> [(''refreshToken'', Tok t)])"

text \<open>\<^verbatim>\<open>.select("-password -refreshToken")\<close>: the projection that leaves the named paths out.\<close>

definition select_minus :: "string list \<Rightarrow> (string \<times> jsval) list \<Rightarrow> (string \<times> jsval) list" where
  "select_minus paths doc = filter (\<lambda>(k, v). \<not> List.member paths k) doc"

definition schema_paths :: "string list" where
  "schema_paths = [''username'', ''email'', ''fullName'', ''avatar'', ''coverImage'', ''password'', ''refreshToken'']"

definition is_operator :: "string \<Rightarrow> bool" where
  "is_operator k = (case k of [] \<Rightarrow> False | c # cs \<Rightarrow> c = CHR ''$'')"

text \<open>
  An update document is applied key by key. A key that starts with \<^verbatim>\<open>$\<close> is an update
  operator and a key that is a path of the schema is an assignment to it; what either does
  to the document is the parameter \<open>cast\<close>. Any other top-level key names no path of the
  schema and is dropped.
\<close>

fun apply_update :: "(string \<Rightarrow> jsval \<Rightarrow> user \<Rightarrow> user) \<Rightarrow> (string \<times> jsval) list \<Rightarrow> user \<Rightarrow> user" where
  "apply_update cast [] d = d"
| "apply_update cast ((k, v) # kvs) d =
     apply_update cast kvs (if is_operator k \<or> List.member schema_paths k then cast k v d else d)"

definition findByIdAndUpdate ::
  "(string \<Rightarrow> jsval \<Rightarrow> user \<Rightarrow> user) \<Rightarrow> user list \<Rightarrow> object_id \<Rightarrow> (string \<times> jsval) list \<Rightarrow> user list" where
  "findByIdAndUpdate cast us i upd =
     (case findById us i of None \<Rightarrow> us | Some d \<Rightarrow> replace_by_id i (apply_update cast upd d) us)"

section \<open>Token signing and verification\<close>

text \<open>
  \<^verbatim>\<open>jwt.sign\<close> and \<^verbatim>\<open>jwt.verify\<close> belong to the jsonwebtoken package, which is not part of
  the repository. Signing stamps the issue time and the expiry, always in the same wording,
  and throws without a key.
\<close>

definition signed_wording :: string where
  "signed_wording = ''alg=HS256,typ=JWT''"

definition jwt_sign :: "object_id \<Rightarrow> string \<Rightarrow> nat \<Rightarrow> nat \<Rightarrow> exn + token" where
  "jwt_sign i secret expiresIn now =
     (if secret = [] then Inl (Error ''secretOrPrivateKey must have a value'')
      else Inr (Jwt signed_wording \<lparr>payload_id = i, iat = now, exp = now + expiresIn\<rparr> secret))"

text \<open>\<^verbatim>\<open>jwtString.split('.')\<close>\<close>

fun parts :: "string \<Rightarrow> string list" where
  "parts [] = [[]]"
| "parts (c # cs) =
     (if c = CHR ''.'' then [] # parts cs
      else (case parts cs of [] \<Rightarrow> [[c]] | x # xs \<Rightarrow> (c # x) # xs))"

text \<open>
  Verification follows the package's order of checks, which is also the order of the spec's
  codec contract. A string that is no token is refused first: the empty string, then a
  string that has not three parts; what the package answers to any other such string (one
  that does not decode, whose payload is no JSON, that names no accepted algorithm) is
  left open as the parameter \<open>refuse\<close>. A token is then checked for the key, the signature,
  and last the expiry (expired when the clock has reached \<^verbatim>\<open>exp\<close>).
\<close>

fun jwt_verify :: "(string \<Rightarrow> exn) \<Rightarrow> token \<Rightarrow> string \<Rightarrow> nat \<Rightarrow> exn + payload" where
  "jwt_verify refuse (Opaque s) secret now =
     (if s = [] then Inl (JsonWebTokenError ''jwt must be provided'')
      else if length (parts s) \<noteq> 3 then Inl (JsonWebTokenError ''jwt malformed'')
      else Inl (refuse s))"
| "jwt_verify refuse (Jwt w p k) secret now =
     (if secret = [] then Inl (JsonWebTokenError ''secret or public key must be provided'')
      else if k \<noteq> secret then Inl (JsonWebTokenError ''invalid signature'')
      else if exp p \<le> now then Inl (TokenExpiredError ''jwt expired'')
      else Inr p)"

text \<open>
  The instance methods that \<^verbatim>\<open>models/user.model.js\<close> attaches to a user document. The file
  is not among the sources, so the controller is embedded over any such methods; the
  token generators also take the clock.
\<close>

record user_model =
  isPassWordCorrect :: "user \<Rightarrow> string option \<Rightarrow> exn + bool"
  generateAccessToken :: "nat \<Rightarrow> user \<Rightarrow> exn + token"
  generateRefreshToken :: "nat \<Rightarrow> user \<Rightarrow> exn + token"

record env =
  ACCESS_TOKEN_SECRET :: string
  ACCESS_TOKEN_EXPIRY :: nat
  REFRESH_TOKEN_SECRET :: string
  REFRESH_TOKEN_EXPIRY :: nat

text \<open>
  Modelled from the spec: the methods of \<^verbatim>\<open>models/user.model.js\<close>, which is not among the
  sources. The password verifier compares the hash of the plaintext with the stored hash
  (\<open>h\<close> is the hash) and has nothing to hash when the plaintext is undefined; each token
  encodes the subject, the issue time and a fixed lifetime and is signed with the key of
  its kind.
\<close>

definition User :: "env \<Rightarrow> (string \<Rightarrow> string) \<Rightarrow> user_model" where
  "User e h =
     \<lparr>isPassWordCorrect = (\<lambda>u pw. case pw of None \<Rightarrow> Inl (Error ''data and hash arguments required'')
                                  | Some p \<Rightarrow> Inr (h p = password u)),
      generateAccessToken = (\<lambda>now u. jwt_sign (user_id u) (ACCESS_TOKEN_SECRET e) (ACCESS_TOKEN_EXPIRY e) now),
      generateRefreshToken = (\<lambda>now u. jwt_sign (user_id u) (REFRESH_TOKEN_SECRET e) (REFRESH_TOKEN_EXPIRY e) now)\<rparr>"

section \<open>Issuing a token pair\<close>

text \<open>
  The body of the \<^verbatim>\<open>try\<close> block of \<^verbatim>\<open>generateAccessAndRefereshTokens\<close>: the user is read,
  both tokens are generated, the refresh token is assigned and saved, and the object
  \<^verbatim>\<open>{ accessToken, refreshToken }\<close> is returned.
\<close>

definition generate_try :: "user_model \<Rightarrow> nat \<Rightarrow> user list \<Rightarrow> object_id \<Rightarrow> exn + (string \<times> jsval) list \<times> user list" where
  "generate_try M now us userId =
     (case findById us userId of
        None \<Rightarrow> Inl (ApiError 404 ''User not found'')
      | Some u \<Rightarrow>
          (case generateAccessToken M now u of
             Inl e \<Rightarrow> Inl e
           | Inr accessToken \<Rightarrow>
               (case generateRefreshToken M now u of
                  Inl e \<Rightarrow> Inl e
                | Inr refreshToken' \<Rightarrow>
                    Inr ([(''accessToken'', Tok accessToken), (''refreshToken'', Tok refreshToken')],
                         save (u\<lparr>refreshToken := Some refreshToken'\<rparr>) us))))"

text \<open>The \<^verbatim>\<open>catch\<close> of the function: whatever was thrown, one error is thrown in its place.\<close>

definition generateAccessAndRefereshTokens ::
  "user_model \<Rightarrow> nat \<Rightarrow> user list \<Rightarrow> object_id \<Rightarrow> exn + (string \<times> jsval) list \<times> user list" where
  "generateAccessAndRefereshTokens M now us userId =
     (case generate_try M now us userId of
        Inl error \<Rightarrow> Inl (ApiError 500 ''Error generating refresh and access tokens'')
      | Inr r \<Rightarrow> Inr r)"

definition options :: jsval where
  "options = Obj [(''httpOnly'', Bool True), (''secure'', Bool True)]"

section \<open>Login\<close>

record login_request =
  req_username :: "string option"
  req_email :: "string option"
  req_password :: "string option"

text \<open>JavaScript truthiness of an optional string: undefined and the empty string are falsy.\<close>

fun truthy :: "string option \<Rightarrow> bool" where
  "truthy None = False"
| "truthy (Some s) = (s \<noteq> [])"

text \<open>\<^verbatim>\<open>loginuser\<close> from the call of \<^verbatim>\<open>generateAccessAndRefereshTokens\<close> to the response.\<close>

definition login_tokens :: "user_model \<Rightarrow> nat \<Rightarrow> user list \<Rightarrow> user \<Rightarrow> (exn + response) \<times> user list" where
  "login_tokens M now us u =
     (case generateAccessAndRefereshTokens M now us (user_id u) of
        Inl e \<Rightarrow> (Inl e, us)
      | Inr (tokens, us') \<Rightarrow>
          (let accessToken = get_prop tokens ''accessToken'';
               refreshToken' = get_prop tokens ''refreshToken'';
               loggedInUser = (case findById us' (user_id u) of
                                 None \<Rightarrow> Null
                               | Some d \<Rightarrow> Obj (select_minus [''password'', ''refreshToken''] (toObject d)))
           in (Inr \<lparr>status = 200,
                    cookies = [(''accessToken'', accessToken, options),
                               (''refreshToken'', refreshToken', options)],
                    body = \<lparr>statusCode = 200,
                            data = Obj [(''user'', loggedInUser), (''accessToken'', accessToken),
                                        (''refreshToken'', refreshToken')],
                            response_message = ''User logged in successfully''\<rparr>\<rparr>,
               us')))"

definition loginuser :: "user_model \<Rightarrow> nat \<Rightarrow> user list \<Rightarrow> login_request \<Rightarrow> (exn + response) \<times> user list" where
  "loginuser M now us req =
     (if \<not> (truthy (req_username req) \<or> truthy (req_email req))
      then (Inl (ApiError 400 ''Username or email is required''), us)
      else (case findOne us (req_username req) (req_email req) of
              None \<Rightarrow> (Inl (ApiError 404 ''User does not exist''), us)
            | Some u \<Rightarrow>
                (case isPassWordCorrect M u (req_password req) of
                   Inl e \<Rightarrow> (Inl e, us)
                 | Inr isPasswordValid \<Rightarrow>
                     (if \<not> isPasswordValid
                      then (Inl (ApiError 401 ''Invalid user credentials''), us)
                      else login_tokens M now us u))))"

section \<open>Logout\<close>

text \<open>
  \<^verbatim>\<open>logOutUser\<close>: the update document passed to \<^verbatim>\<open>findByIdAndUpdate\<close> is
  \<^verbatim>\<open>{ set: { refreshToken: undefined } }\<close>, and both \<^verbatim>\<open>res.cookie\<close> calls pass the options
  where the value goes. The argument is \<^verbatim>\<open>req.user._id\<close>.
\<close>

definition logOutUser ::
  "(string \<Rightarrow> jsval \<Rightarrow> user \<Rightarrow> user) \<Rightarrow> user list \<Rightarrow> object_id \<Rightarrow> (exn + response) \<times> user list" where
  "logOutUser cast us userId =
     (let us' = findByIdAndUpdate cast us userId [(''set'', Obj [(''refreshToken'', Undefined)])]
      in (Inr \<lparr>status = 200,
               cookies = [(''accessToken'', options, Undefined), (''refreshToken'', options, Undefined)],
               body = \<lparr>statusCode = 200, data = Obj [], response_message = ''User logout successfuly''\<rparr>\<rparr>,
          us'))"

section \<open>Refresh\<close>

record refresh_request =
  cookies_refreshToken :: "token option"
  body_refreshToken :: "token option"

fun truthy_token :: "token option \<Rightarrow> bool" where
  "truthy_token None = False"
| "truthy_token (Some (Opaque s)) = (s \<noteq> [])"
| "truthy_token (Some (Jwt w p k)) = True"

text \<open>\<^verbatim>\<open>(await req.cookies.refreshToken) || req.body.refreshToken\<close>\<close>

definition incomingRefreshToken :: "refresh_request \<Rightarrow> token option" where
  "incomingRefreshToken req =
     (if truthy_token (cookies_refreshToken req) then cookies_refreshToken req else body_refreshToken req)"

text \<open>
  The \<^verbatim>\<open>try\<close> block of \<^verbatim>\<open>refreshAccessToken\<close> in two parts, split where the handler awaits
  the token pair. The first part verifies the token, reads the user and compares the
  presented token with the stored one.
\<close>

definition refresh_check :: "(string \<Rightarrow> exn) \<Rightarrow> string \<Rightarrow> nat \<Rightarrow> user list \<Rightarrow> token \<Rightarrow> exn + user" where
  "refresh_check refuse secret now us incoming =
     (case jwt_verify refuse incoming secret now of
        Inl e \<Rightarrow> Inl e
      | Inr decodedToken \<Rightarrow>
          (case findById us (payload_id decodedToken) of
             None \<Rightarrow> Inl (ApiError 401 ''Invalid refresh token'')
           | Some u \<Rightarrow>
               (if Some incoming \<noteq> refreshToken u
                then Inl (ApiError 401 ''Refresh token is expired or used'')
                else Inr u)))"

text \<open>
  The second part issues the pair and answers. The source destructures
  \<^verbatim>\<open>{ accessToken, newRefreshToken }\<close> from the returned object.
\<close>

definition refresh_rotate :: "user_model \<Rightarrow> nat \<Rightarrow> user list \<Rightarrow> user \<Rightarrow> (exn + response) \<times> user list" where
  "refresh_rotate M now us u =
     (case generateAccessAndRefereshTokens M now us (user_id u) of
        Inl e \<Rightarrow> (Inl e, us)
      | Inr (tokens, us') \<Rightarrow>
          (let accessToken = get_prop tokens ''accessToken'';
               newRefreshToken = get_prop tokens ''newRefreshToken''
           in (Inr \<lparr>status = 200,
                    cookies = [(''accessToken'', accessToken, options),
                               (''refreshToken'', newRefreshToken, options)],
                    body = \<lparr>statusCode = 200,
                            data = Obj [(''accessToken'', accessToken), (''refreshToken'', newRefreshToken)],
                            response_message = ''Access token refreshed''\<rparr>\<rparr>,
               us')))"

text \<open>The \<^verbatim>\<open>catch\<close>: \<^verbatim>\<open>throw new ApiError(401, error?.message || "Invalid refresh token")\<close>\<close>

definition refresh_catch :: "exn + response \<Rightarrow> exn + response" where
  "refresh_catch r =
     (case r of
        Inl error \<Rightarrow> Inl (ApiError 401 (if message error \<noteq> [] then message error else ''Invalid refresh token''))
      | Inr res \<Rightarrow> Inr res)"

definition refreshAccessToken ::
  "user_model \<Rightarrow> (string \<Rightarrow> exn) \<Rightarrow> string \<Rightarrow> nat \<Rightarrow> user list \<Rightarrow> refresh_request \<Rightarrow> (exn + response) \<times> user list" where
  "refreshAccessToken M refuse secret now us req =
     (case incomingRefreshToken req of
        None \<Rightarrow> (Inl (ApiError 401 ''Unauthorized request''), us)
      | Some incoming \<Rightarrow>
          (if \<not> truthy_token (Some incoming)
           then (Inl (ApiError 401 ''Unauthorized request''), us)
           else (case refresh_check refuse secret now us incoming of
                   Inl e \<Rightarrow> (refresh_catch (Inl e), us)
                 | Inr u \<Rightarrow>
                     (case refresh_rotate M now us u of
                        (r, us') \<Rightarrow> (refresh_catch r, us')))))"

section \<open>Observations\<close>

text \<open>What a client reads in the body of a response, and what the collection holds for a user.\<close>

definition fields :: "jsval \<Rightarrow> (string \<times> jsval) list" where
  "fields v = (case v of Obj kvs \<Rightarrow> kvs | _ \<Rightarrow> [])"

definition body_field :: "response \<Rightarrow> string \<Rightarrow> jsval" where
  "body_field res k = get_prop (fields (data (body res))) k"

definition stored_refreshToken :: "user list \<Rightarrow> object_id \<Rightarrow> token option" where
  "stored_refreshToken us i = (case findById us i of None \<Rightarrow> None | Some d \<Rightarrow> refreshToken d)"

section \<open>Requests served concurrently\<close>

text \<open>
  A handler runs until it awaits; another request may run in between. A refresh request
  is a process of two steps, the two parts of the \<^verbatim>\<open>try\<close> block, and a schedule says which
  process takes its next step and at what time.
\<close>

datatype proc = Received refresh_request | Compared user | Done "exn + response"

fun proc_step :: "user_model \<Rightarrow> (string \<Rightarrow> exn) \<Rightarrow> string \<Rightarrow> nat \<Rightarrow> user list \<Rightarrow> proc \<Rightarrow> proc \<times> user list" where
  "proc_step M refuse secret now us (Received req) =
     (case incomingRefreshToken req of
        None \<Rightarrow> (Done (Inl (ApiError 401 ''Unauthorized request'')), us)
      | Some incoming \<Rightarrow>
          (if \<not> truthy_token (Some incoming)
           then (Done (Inl (ApiError 401 ''Unauthorized request'')), us)
           else (case refresh_check refuse secret now us incoming of
                   Inl e \<Rightarrow> (Done (refresh_catch (Inl e)), us)
                 | Inr u \<Rightarrow> (Compared u, us))))"
| "proc_step M refuse secret now us (Compared u) =
     (case refresh_rotate M now us u of (r, us') \<Rightarrow> (Done (refresh_catch r), us'))"
| "proc_step M refuse secret now us (Done r) = (Done r, us)"

fun run :: "user_model \<Rightarrow> (string \<Rightarrow> exn) \<Rightarrow> string \<Rightarrow> (nat \<times> nat) list \<Rightarrow> proc list \<times> user list \<Rightarrow> proc list \<times> user list" where
  "run M refuse secret [] c = c"
| "run M refuse secret ((i, now) # schedule) (ps, us) =
     (if i < length ps
      then (case proc_step M refuse secret now us (ps ! i) of
              (p', us') \<Rightarrow> run M refuse secret schedule (ps[i := p'], us'))
      else run M refuse secret schedule (ps, us))"

section \<open>A concrete deployment\<close>

definition env0 :: env where
  "env0 = \<lparr>ACCESS_TOKEN_SECRET = ''access-key'', ACCESS_TOKEN_EXPIRY = 900,
           REFRESH_TOKEN_SECRET = ''refresh-key'', REFRESH_TOKEN_EXPIRY = 864000\<rparr>"

definition hash0 :: "string \<Rightarrow> string" where
  "hash0 pw = ''$2b$'' @ rev pw"

definition User0 :: user_model where
  "User0 = User env0 hash0"

text \<open>The refresh token that \<open>User0\<close> issues to the subject \<open>i\<close> at time \<open>t\<close>.\<close>

definition refresh_at :: "object_id \<Rightarrow> nat \<Rightarrow> token" where
  "refresh_at i t = Jwt signed_wording \<lparr>payload_id = i, iat = t, exp = t + 864000\<rparr> ''refresh-key''"

definition access_at :: "object_id \<Rightarrow> nat \<Rightarrow> token" where
  "access_at i t = Jwt signed_wording \<lparr>payload_id = i, iat = t, exp = t + 900\<rparr> ''access-key''"

definition alice :: user where
  "alice = \<lparr>user_id = ''u1'', username = ''alice'', email = ''alice@example.com'', fullName = ''Alice'',
            avatar = ''http://img/a.png'', coverImage = [], password = hash0 ''correct-pw'',
            refreshToken = Some (refresh_at ''u1'' 100)\<rparr>"

definition bob :: user where
  "bob = \<lparr>user_id = ''u2'', username = ''bob'', email = ''bob@example.com'', fullName = ''Bob'',
          avatar = ''http://img/b.png'', coverImage = [], password = hash0 ''hunter2'',
          refreshToken = None\<rparr>"

text \<open>A verifier that answers \<^verbatim>\<open>invalid token\<close> to every three-part string that is no token.\<close>

definition refuse0 :: "string \<Rightarrow> exn" where
  "refuse0 s = JsonWebTokenError ''invalid token''"

definition present :: "token \<Rightarrow> refresh_request" where
  "present t = \<lparr>cookies_refreshToken = Some t, body_refreshToken = None\<rparr>"

definition alice_login :: login_request where
  "alice_login = \<lparr>req_username = Some ''alice'', req_email = None, req_password = Some ''correct-pw''\<rparr>"

definition no_identity :: login_request where
  "no_identity = \<lparr>req_username = None, req_email = Some [], req_password = Some ''correct-pw''\<rparr>"

definition alice_no_password :: login_request where
  "alice_no_password = \<lparr>req_username = Some ''alice'', req_email = None, req_password = None\<rparr>"

definition alice_wrong_password :: login_request where
  "alice_wrong_password = \<lparr>req_username = Some ''alice'', req_email = None, req_password = Some ''wrong-pw''\<rparr>"

definition carol_login :: login_request where
  "carol_login = \<lparr>req_username = Some ''carol'', req_email = None, req_password = Some ''correct-pw''\<rparr>"



text \<open>
  The claims of the first user's stored token under the same key in another wording: a
  different string.
\<close>

definition reworded :: token where
  "reworded = Jwt ''typ=JWT,alg=HS256'' \<lparr>payload_id = ''u1'', iat = 100, exp = 864100\<rparr> ''refresh-key''"

text \<open>Whether a handler has answered with a response rather than thrown.\<close>

fun answered :: "exn + response \<Rightarrow> bool" where
  "answered (Inr res) = True"
| "answered (Inl e) = False"

text \<open>Whether a process has ended with a response rather than an error.\<close>

fun succeeded :: "proc \<Rightarrow> bool" where
  "succeeded (Done (Inr res)) = True"
| "succeeded p = False"

text \<open>The store after the first user's refresh token has been replaced by one issued at \<open>t\<close>.\<close>

definition rotated :: "nat \<Rightarrow> user list" where
  "rotated t = [alice\<lparr>refreshToken := Some (refresh_at ''u1'' t)\<rparr>, bob]"

definition pair_at :: "nat \<Rightarrow> (string \<times> jsval) list" where
  "pair_at t = [(''accessToken'', Tok (access_at ''u1'' t)), (''refreshToken'', Tok (refresh_at ''u1'' t))]"

text \<open>The same deployment with the access-token key left unset.\<close>

definition User_without_key :: user_model where
  "User_without_key = User (env0\<lparr>ACCESS_TOKEN_SECRET := []\<rparr>) hash0"

section \<open>The collection and the token pair\<close>

lemma findById_id: "findById us i = Some d \<Longrightarrow> user_id d = i"
  unfolding findById_def by (induction us) (auto split: if_splits)

lemma findById_replace:
  "findById us i = Some d \<Longrightarrow> user_id d' = i \<Longrightarrow> findById (replace_by_id i d' us) i = Some d'"
  unfolding findById_def by (induction us) (auto split: if_splits)

lemma replace_same: "findById us i = Some d \<Longrightarrow> replace_by_id i d us = us"
  unfolding findById_def by (induction us) (auto split: if_splits)

lemma findById_save:
  "findById us i = Some d \<Longrightarrow> findById (save (d\<lparr>refreshToken := t\<rparr>) us) i = Some (d\<lparr>refreshToken := t\<rparr>)"
  unfolding save_def using findById_id [of us i d] by (simp add: findById_replace)

lemma generate_try_Inr:
  "generate_try M now us i = Inr (tokens, us') \<Longrightarrow>
     \<exists>u a r. findById us i = Some u \<and> generateAccessToken M now u = Inr a \<and> generateRefreshToken M now u = Inr r
       \<and> tokens = [(''accessToken'', Tok a), (''refreshToken'', Tok r)]
       \<and> us' = save (u\<lparr>refreshToken := Some r\<rparr>) us"
  unfolding generate_try_def by (auto split: option.splits sum.splits)

lemma generate_Inr:
  "generateAccessAndRefereshTokens M now us i = Inr (tokens, us') \<Longrightarrow>
     \<exists>u a r. findById us i = Some u \<and> generateAccessToken M now u = Inr a \<and> generateRefreshToken M now u = Inr r
       \<and> tokens = [(''accessToken'', Tok a), (''refreshToken'', Tok r)]
       \<and> us' = save (u\<lparr>refreshToken := Some r\<rparr>) us"
  unfolding generateAccessAndRefereshTokens_def
  by (cases "generate_try M now us i") (auto dest: generate_try_Inr)

lemma login_tokens_Inr:
  assumes "login_tokens M now us u = (Inr res, us')"
  shows "\<exists>d a r. findById us (user_id u) = Some d \<and> generateAccessToken M now d = Inr a
            \<and> generateRefreshToken M now d = Inr r
            \<and> us' = save (d\<lparr>refreshToken := Some r\<rparr>) us
            \<and> cookies res = [(''accessToken'', Tok a, options), (''refreshToken'', Tok r, options)]
            \<and> data (body res) = Obj [(''user'', Obj (select_minus [''password'', ''refreshToken''] (toObject (d\<lparr>refreshToken := Some r\<rparr>)))),
                                      (''accessToken'', Tok a), (''refreshToken'', Tok r)]"
proof -
  from assms obtain tokens where g: "generateAccessAndRefereshTokens M now us (user_id u) = Inr (tokens, us')"
    unfolding login_tokens_def by (auto split: sum.splits prod.splits simp: Let_def)
  from generate_Inr [OF g] obtain d a r where
    d: "findById us (user_id u) = Some d" and a: "generateAccessToken M now d = Inr a"
    and r: "generateRefreshToken M now d = Inr r"
    and t: "tokens = [(''accessToken'', Tok a), (''refreshToken'', Tok r)]"
    and s: "us' = save (d\<lparr>refreshToken := Some r\<rparr>) us" by blast
  have f: "findById us' (user_id u) = Some (d\<lparr>refreshToken := Some r\<rparr>)"
    using d s by (simp add: findById_save)
  from assms g t f have "res = \<lparr>status = 200,
                    cookies = [(''accessToken'', Tok a, options), (''refreshToken'', Tok r, options)],
                    body = \<lparr>statusCode = 200,
                            data = Obj [(''user'', Obj (select_minus [''password'', ''refreshToken''] (toObject (d\<lparr>refreshToken := Some r\<rparr>)))), (''accessToken'', Tok a),
                                        (''refreshToken'', Tok r)],
                            response_message = ''User logged in successfully''\<rparr>\<rparr>"
    unfolding login_tokens_def by (simp add: Let_def get_prop_def)
  with d a r s show ?thesis by simp
qed

lemma loginuser_Inr:
  assumes "loginuser M now us req = (Inr res, us')"
  shows "\<exists>u. findOne us (req_username req) (req_email req) = Some u
           \<and> isPassWordCorrect M u (req_password req) = Inr True
           \<and> login_tokens M now us u = (Inr res, us')"
  using assms unfolding loginuser_def
  by (auto split: if_splits option.splits sum.splits)

lemmas deployment_defs = User0_def User_def env0_def hash0_def alice_def bob_def refresh_at_def access_at_def present_def

lemmas handler_defs = loginuser_def login_tokens_def generateAccessAndRefereshTokens_def generate_try_def
  refreshAccessToken_def refresh_check_def refresh_rotate_def refresh_catch_def incomingRefreshToken_def
  findById_def findOne_def save_def jwt_sign_def get_prop_def options_def

lemma select_minus_excluded: "List.member paths k \<Longrightarrow> map_of (select_minus paths doc) k = None"
  unfolding select_minus_def by (induction doc) auto

section \<open>Properties of login\<close>

text \<open>
  Claim C4. After every successful login the refresh token stored for the user who logged in
  is exactly the refresh token returned to the caller, in the body and in the cookie.
\<close>

theorem login_stores_returned_refresh_token:
  assumes "loginuser M now us req = (Inr res, us')"
  shows "\<exists>u t. findOne us (req_username req) (req_email req) = Some u
           \<and> stored_refreshToken us' (user_id u) = Some t
           \<and> body_field res ''refreshToken'' = Tok t
           \<and> cookie_value res ''refreshToken'' = Tok t"
proof -
  from loginuser_Inr [OF assms] obtain u where
    u: "findOne us (req_username req) (req_email req) = Some u"
    and l: "login_tokens M now us u = (Inr res, us')" by blast
  from login_tokens_Inr [OF l] obtain d a r where
    d: "findById us (user_id u) = Some d"
    and s: "us' = save (d\<lparr>refreshToken := Some r\<rparr>) us"
    and c: "cookies res = [(''accessToken'', Tok a, options), (''refreshToken'', Tok r, options)]"
    and b: "data (body res) = Obj [(''user'', Obj (select_minus [''password'', ''refreshToken''] (toObject (d\<lparr>refreshToken := Some r\<rparr>)))),
                                      (''accessToken'', Tok a), (''refreshToken'', Tok r)]"
    by blast
  have "stored_refreshToken us' (user_id u) = Some r"
    using d s by (simp add: stored_refreshToken_def findById_save)
  moreover have "body_field res ''refreshToken'' = Tok r"
    using b by (simp add: body_field_def fields_def get_prop_def)
  moreover have "cookie_value res ''refreshToken'' = Tok r"
    using c by (simp add: cookie_value_def)
  ultimately show ?thesis using u by blast
qed

theorem login_stores_returned_refresh_token_witness:
  "\<exists>res us'. loginuser User0 200 [alice, bob] alice_login = (Inr res, us')
      \<and> stored_refreshToken us' ''u1'' = Some (refresh_at ''u1'' 200)
      \<and> body_field res ''refreshToken'' = Tok (refresh_at ''u1'' 200)
      \<and> cookie_value res ''refreshToken'' = Tok (refresh_at ''u1'' 200)"
proof -
  have "\<exists>res us'. loginuser User0 200 [alice, bob] alice_login = (Inr res, us')
      \<and> stored_refreshToken us' ''u1'' = Some (refresh_at ''u1'' 200)"
    by (simp add: alice_login_def deployment_defs handler_defs stored_refreshToken_def Let_def)
  then obtain res us' where h: "loginuser User0 200 [alice, bob] alice_login = (Inr res, us')"
    and s: "stored_refreshToken us' ''u1'' = Some (refresh_at ''u1'' 200)"
    by blast
  have f: "findOne [alice, bob] (req_username alice_login) (req_email alice_login) = Some alice"
    by (simp add: alice_login_def findOne_def alice_def)
  from login_stores_returned_refresh_token [OF h] f s
  have "body_field res ''refreshToken'' = Tok (refresh_at ''u1'' 200)
      \<and> cookie_value res ''refreshToken'' = Tok (refresh_at ''u1'' 200)"
    by (auto simp: alice_def)
  with h s show ?thesis by blast
qed

text \<open>
  Claim C8. The user view in the body of a successful login has neither the password nor
  the refresh-token field, and the response carries both issued tokens, the ones the
  generators returned for the stored user, each as a field of the body and as one of the
  two cookies.
\<close>

theorem login_response_is_sanitized:
  assumes "loginuser M now us req = (Inr res, us')"
  shows "\<exists>u d view a r. findOne us (req_username req) (req_email req) = Some u
           \<and> findById us (user_id u) = Some d
           \<and> generateAccessToken M now d = Inr a
           \<and> generateRefreshToken M now d = Inr r
           \<and> body_field res ''user'' = Obj view
           \<and> map_of view ''_id'' = Some (Str (user_id u))
           \<and> map_of view ''username'' = Some (Str (username d))
           \<and> map_of view ''password'' = None
           \<and> map_of view ''refreshToken'' = None
           \<and> body_field res ''accessToken'' = Tok a
           \<and> body_field res ''refreshToken'' = Tok r
           \<and> map fst (cookies res) = [''accessToken'', ''refreshToken'']
           \<and> cookie_value res ''accessToken'' = Tok a
           \<and> cookie_value res ''refreshToken'' = Tok r"
proof -
  from loginuser_Inr [OF assms] obtain u where
    u: "findOne us (req_username req) (req_email req) = Some u"
    and l: "login_tokens M now us u = (Inr res, us')" by blast
  from login_tokens_Inr [OF l] obtain d a r where
    d: "findById us (user_id u) = Some d"
    and ga: "generateAccessToken M now d = Inr a"
    and gr: "generateRefreshToken M now d = Inr r"
    and c: "cookies res = [(''accessToken'', Tok a, options), (''refreshToken'', Tok r, options)]"
    and b: "data (body res) = Obj [(''user'', Obj (select_minus [''password'', ''refreshToken''] (toObject (d\<lparr>refreshToken := Some r\<rparr>)))),
                                      (''accessToken'', Tok a), (''refreshToken'', Tok r)]"
    by blast
  define view where "view = select_minus [''password'', ''refreshToken''] (toObject (d\<lparr>refreshToken := Some r\<rparr>))"
  have i: "user_id d = user_id u" using d by (rule findById_id)
  have v1: "body_field res ''user'' = Obj view"
    using b by (simp add: body_field_def fields_def get_prop_def view_def)
  have v2: "map_of view ''_id'' = Some (Str (user_id u))"
    using i by (simp add: view_def select_minus_def toObject_def)
  have v2': "map_of view ''username'' = Some (Str (username d))"
    by (simp add: view_def select_minus_def toObject_def)
  have v3: "map_of view ''password'' = None"
    unfolding view_def by (rule select_minus_excluded) simp
  have v4: "map_of view ''refreshToken'' = None"
    unfolding view_def by (rule select_minus_excluded) simp
  have b1: "body_field res ''accessToken'' = Tok a" and b2: "body_field res ''refreshToken'' = Tok r"
    using b by (simp_all add: body_field_def fields_def get_prop_def)
  have c0: "map fst (cookies res) = [''accessToken'', ''refreshToken'']"
    using c by simp
  have c1: "cookie_value res ''accessToken'' = Tok a" and c2: "cookie_value res ''refreshToken'' = Tok r"
    using c by (simp_all add: cookie_value_def)
  show ?thesis
    by (rule exI [of _ u], rule exI [of _ d], rule exI [of _ view], rule exI [of _ a], rule exI [of _ r])
       (simp add: u d ga gr v1 v2 v2' v3 v4 b1 b2 c0 c1 c2)
qed

theorem login_response_is_sanitized_witness:
  "\<exists>res us' view. loginuser User0 200 [alice, bob] alice_login = (Inr res, us')
      \<and> generateAccessToken User0 200 alice = Inr (access_at ''u1'' 200)
      \<and> generateRefreshToken User0 200 alice = Inr (refresh_at ''u1'' 200)
      \<and> body_field res ''user'' = Obj view
      \<and> map_of view ''_id'' = Some (Str ''u1'')
      \<and> map_of view ''username'' = Some (Str ''alice'')
      \<and> map_of view ''password'' = None
      \<and> map_of view ''refreshToken'' = None
      \<and> body_field res ''accessToken'' = Tok (access_at ''u1'' 200)
      \<and> body_field res ''refreshToken'' = Tok (refresh_at ''u1'' 200)
      \<and> cookie_value res ''accessToken'' = Tok (access_at ''u1'' 200)
      \<and> cookie_value res ''refreshToken'' = Tok (refresh_at ''u1'' 200)"
proof -
  have "\<exists>res us'. loginuser User0 200 [alice, bob] alice_login = (Inr res, us')"
    by (simp add: alice_login_def deployment_defs handler_defs Let_def)
  then obtain res us' where h: "loginuser User0 200 [alice, bob] alice_login = (Inr res, us')"
    by blast
  have f: "findOne [alice, bob] (req_username alice_login) (req_email alice_login) = Some alice"
    by (simp add: alice_login_def findOne_def alice_def)
  have g: "findById [alice, bob] (user_id alice) = Some alice"
    by (simp add: findById_def)
  have ga: "generateAccessToken User0 200 alice = Inr (access_at ''u1'' 200)"
    and gr: "generateRefreshToken User0 200 alice = Inr (refresh_at ''u1'' 200)"
    by (simp_all add: deployment_defs jwt_sign_def)
  from login_response_is_sanitized [OF h] f g ga gr obtain view where
    "body_field res ''user'' = Obj view" "map_of view ''_id'' = Some (Str (user_id alice))"
    "map_of view ''username'' = Some (Str (username alice))"
    "map_of view ''password'' = None" "map_of view ''refreshToken'' = None"
    "body_field res ''accessToken'' = Tok (access_at ''u1'' 200)"
    "body_field res ''refreshToken'' = Tok (refresh_at ''u1'' 200)"
    "cookie_value res ''accessToken'' = Tok (access_at ''u1'' 200)"
    "cookie_value res ''refreshToken'' = Tok (refresh_at ''u1'' 200)"
    by auto
  with h ga gr show ?thesis by (auto simp: alice_def)
qed

section \<open>Failures of token generation\<close>

text \<open>
  Claim C9. Whatever the \<^verbatim>\<open>try\<close> block of \<^verbatim>\<open>generateAccessAndRefereshTokens\<close> throws, the
  404 for a subject that is no user included, the function throws the one error of status
  500 in its place; that error is what the login handler and the \<^verbatim>\<open>try\<close> block of the
  refresh handler receive, and the store is left as it was.
\<close>

theorem generation_failure_replaced_by_500:
  "(findById us (user_id u) = None \<longrightarrow> generate_try M now us (user_id u) = Inl (ApiError 404 ''User not found''))
   \<and> (generate_try M now us (user_id u) = Inl e \<longrightarrow>
        generateAccessAndRefereshTokens M now us (user_id u) = Inl (ApiError 500 ''Error generating refresh and access tokens'')
        \<and> login_tokens M now us u = (Inl (ApiError 500 ''Error generating refresh and access tokens''), us)
        \<and> refresh_rotate M now us u = (Inl (ApiError 500 ''Error generating refresh and access tokens''), us))"
  by (simp add: generate_try_def generateAccessAndRefereshTokens_def login_tokens_def refresh_rotate_def)

theorem generation_failure_replaced_by_500_witness:
  "findById [alice, bob] (user_id (bob\<lparr>user_id := ''u9''\<rparr>)) = None
   \<and> generate_try User0 200 [alice, bob] (user_id (bob\<lparr>user_id := ''u9''\<rparr>)) = Inl (ApiError 404 ''User not found'')
   \<and> generateAccessAndRefereshTokens User0 200 [alice, bob] ''u9'' = Inl (ApiError 500 ''Error generating refresh and access tokens'')
   \<and> refresh_rotate User0 200 [alice, bob] (bob\<lparr>user_id := ''u9''\<rparr>) = (Inl (ApiError 500 ''Error generating refresh and access tokens''), [alice, bob])
   \<and> generate_try User_without_key 200 [alice, bob] (user_id alice) = Inl (Error ''secretOrPrivateKey must have a value'')
   \<and> login_tokens User_without_key 200 [alice, bob] alice = (Inl (ApiError 500 ''Error generating refresh and access tokens''), [alice, bob])"
proof -
  have n: "findById [alice, bob] (user_id (bob\<lparr>user_id := ''u9''\<rparr>)) = None"
    by (simp add: findById_def alice_def bob_def)
  have k: "generate_try User_without_key 200 [alice, bob] (user_id alice) = Inl (Error ''secretOrPrivateKey must have a value'')"
    by (simp add: generate_try_def findById_def User_without_key_def User_def jwt_sign_def alice_def)
  from n generation_failure_replaced_by_500 [where us = "[alice, bob]" and u = "bob\<lparr>user_id := ''u9''\<rparr>"
      and M = User0 and now = 200 and e = "ApiError 404 ''User not found''"]
  have a: "generate_try User0 200 [alice, bob] (user_id (bob\<lparr>user_id := ''u9''\<rparr>)) = Inl (ApiError 404 ''User not found'')
   \<and> generateAccessAndRefereshTokens User0 200 [alice, bob] ''u9'' = Inl (ApiError 500 ''Error generating refresh and access tokens'')
   \<and> refresh_rotate User0 200 [alice, bob] (bob\<lparr>user_id := ''u9''\<rparr>) = (Inl (ApiError 500 ''Error generating refresh and access tokens''), [alice, bob])"
    by simp
  from k generation_failure_replaced_by_500 [where us = "[alice, bob]" and u = alice
      and M = User_without_key and now = 200 and e = "Error ''secretOrPrivateKey must have a value''"]
  have b: "login_tokens User_without_key 200 [alice, bob] alice = (Inl (ApiError 500 ''Error generating refresh and access tokens''), [alice, bob])"
    by simp
  from n a k b show ?thesis by simp
qed

section \<open>The checks of login\<close>

text \<open>
  Claim C10. The only check of a login request before the user is looked up is that a
  username or an email is present: with neither the request is refused with the validation
  error, and with one the outcome depends on the lookup and on the password comparison
  alone, whatever the password is. A request that names an existing user and has no
  password is therefore not refused with a validation error: its outcome is that of the
  password comparison on the undefined password.
\<close>

theorem login_checks_identity_only:
  "(\<not> (truthy (req_username req) \<or> truthy (req_email req)) \<longrightarrow>
      loginuser M now us req = (Inl (ApiError 400 ''Username or email is required''), us))
   \<and> ((truthy (req_username req) \<or> truthy (req_email req))
        \<and> findOne us (req_username req) (req_email req) = None \<longrightarrow>
      loginuser M now us req = (Inl (ApiError 404 ''User does not exist''), us))
   \<and> ((truthy (req_username req) \<or> truthy (req_email req))
        \<and> findOne us (req_username req) (req_email req) = Some u \<longrightarrow>
      loginuser M now us req =
        (case isPassWordCorrect M u (req_password req) of
           Inl e \<Rightarrow> (Inl e, us)
         | Inr isPasswordValid \<Rightarrow>
             if isPasswordValid then login_tokens M now us u
             else (Inl (ApiError 401 ''Invalid user credentials''), us)))
   \<and> ((truthy (req_username req) \<or> truthy (req_email req)) \<and> req_password req = None
        \<and> findOne us (req_username req) (req_email req) = Some u \<longrightarrow>
      loginuser M now us req =
        (case isPassWordCorrect M u None of
           Inl e \<Rightarrow> (Inl e, us)
         | Inr isPasswordValid \<Rightarrow>
             if isPasswordValid then login_tokens M now us u
             else (Inl (ApiError 401 ''Invalid user credentials''), us)))"
  by (auto simp: loginuser_def split: sum.splits)

theorem login_checks_identity_only_witness:
  "\<not> (truthy (req_username no_identity) \<or> truthy (req_email no_identity))
   \<and> loginuser User0 200 [alice, bob] no_identity = (Inl (ApiError 400 ''Username or email is required''), [alice, bob])
   \<and> truthy (req_username carol_login)
   \<and> findOne [alice, bob] (req_username carol_login) (req_email carol_login) = None
   \<and> loginuser User0 200 [alice, bob] carol_login = (Inl (ApiError 404 ''User does not exist''), [alice, bob])
   \<and> truthy (req_username alice_login)
   \<and> findOne [alice, bob] (req_username alice_login) (req_email alice_login) = Some alice
   \<and> isPassWordCorrect User0 alice (req_password alice_login) = Inr True
   \<and> loginuser User0 200 [alice, bob] alice_login = login_tokens User0 200 [alice, bob] alice
   \<and> truthy (req_username alice_no_password)
   \<and> req_password alice_no_password = None
   \<and> findOne [alice, bob] (req_username alice_no_password) (req_email alice_no_password) = Some alice
   \<and> loginuser User0 200 [alice, bob] alice_no_password = (Inl (Error ''data and hash arguments required''), [alice, bob])"
proof -
  have a: "\<not> (truthy (req_username no_identity) \<or> truthy (req_email no_identity))"
    by (simp add: no_identity_def)
  have k: "truthy (req_username carol_login)"
    "findOne [alice, bob] (req_username carol_login) (req_email carol_login) = None"
    by (simp_all add: carol_login_def findOne_def alice_def bob_def)
  have l: "truthy (req_username alice_login)"
    "findOne [alice, bob] (req_username alice_login) (req_email alice_login) = Some alice"
    "isPassWordCorrect User0 alice (req_password alice_login) = Inr True"
    by (simp_all add: alice_login_def findOne_def alice_def User0_def User_def hash0_def)
  have b: "truthy (req_username alice_no_password)" "req_password alice_no_password = None"
    "findOne [alice, bob] (req_username alice_no_password) (req_email alice_no_password) = Some alice"
    by (simp_all add: alice_no_password_def findOne_def alice_def)
  have c: "isPassWordCorrect User0 alice None = Inl (Error ''data and hash arguments required'')"
    by (simp add: User0_def User_def)
  from a login_checks_identity_only [where req = no_identity and M = User0 and now = 200 and us = "[alice, bob]"]
  have r1: "loginuser User0 200 [alice, bob] no_identity = (Inl (ApiError 400 ''Username or email is required''), [alice, bob])"
    by simp
  from k login_checks_identity_only [where req = carol_login and M = User0 and now = 200 and us = "[alice, bob]"]
  have r2: "loginuser User0 200 [alice, bob] carol_login = (Inl (ApiError 404 ''User does not exist''), [alice, bob])"
    by simp
  from l login_checks_identity_only [where req = alice_login and M = User0 and now = 200 and us = "[alice, bob]" and u = alice]
  have r3: "loginuser User0 200 [alice, bob] alice_login = login_tokens User0 200 [alice, bob] alice"
    by simp
  from b c login_checks_identity_only [where req = alice_no_password and M = User0 and now = 200 and us = "[alice, bob]" and u = alice]
  have r4: "loginuser User0 200 [alice, bob] alice_no_password = (Inl (Error ''data and hash arguments required''), [alice, bob])"
    by simp
  from a k l b r1 r2 r3 r4 show ?thesis by simp
qed

text \<open>
  Claim C7, as stated, fails: an unknown identity and a wrong password are answered with
  different status codes and different messages.
\<close>

theorem login_failures_same_message_counterexample:
  "fst (loginuser User0 200 [alice, bob] carol_login) = Inl (ApiError 404 ''User does not exist'')
   \<and> fst (loginuser User0 200 [alice, bob] alice_wrong_password) = Inl (ApiError 401 ''Invalid user credentials'')
   \<and> message (ApiError 404 ''User does not exist'') \<noteq> message (ApiError 401 ''Invalid user credentials'')"
  by (simp add: carol_login_def alice_wrong_password_def deployment_defs loginuser_def findOne_def)

text \<open>
  Claim C7, amended. Login fails with status 404 and the message \<^verbatim>\<open>User does not exist\<close> when
  no user matches the identity, and with status 401 and the message
  \<^verbatim>\<open>Invalid user credentials\<close> when the password does not verify; the two failures differ in
  status and in message.
\<close>

theorem login_failure_kinds:
  "((truthy (req_username req) \<or> truthy (req_email req))
      \<and> findOne us (req_username req) (req_email req) = None \<longrightarrow>
      loginuser M now us req = (Inl (ApiError 404 ''User does not exist''), us))
   \<and> ((truthy (req_username req) \<or> truthy (req_email req))
      \<and> findOne us (req_username req) (req_email req) = Some u
      \<and> isPassWordCorrect M u (req_password req) = Inr False \<longrightarrow>
      loginuser M now us req = (Inl (ApiError 401 ''Invalid user credentials''), us))
   \<and> ApiError 404 ''User does not exist'' \<noteq> ApiError 401 ''Invalid user credentials''
   \<and> message (ApiError 404 ''User does not exist'') \<noteq> message (ApiError 401 ''Invalid user credentials'')"
  by (auto simp: loginuser_def)

theorem login_failure_kinds_witness:
  "truthy (req_username carol_login)
   \<and> findOne [alice, bob] (req_username carol_login) (req_email carol_login) = None
   \<and> loginuser User0 200 [alice, bob] carol_login = (Inl (ApiError 404 ''User does not exist''), [alice, bob])
   \<and> truthy (req_username alice_wrong_password)
   \<and> findOne [alice, bob] (req_username alice_wrong_password) (req_email alice_wrong_password) = Some alice
   \<and> isPassWordCorrect User0 alice (req_password alice_wrong_password) = Inr False
   \<and> loginuser User0 200 [alice, bob] alice_wrong_password = (Inl (ApiError 401 ''Invalid user credentials''), [alice, bob])"
proof -
  have a: "truthy (req_username carol_login)"
    "findOne [alice, bob] (req_username carol_login) (req_email carol_login) = None"
    by (simp_all add: carol_login_def findOne_def alice_def bob_def)
  have b: "truthy (req_username alice_wrong_password)"
    "findOne [alice, bob] (req_username alice_wrong_password) (req_email alice_wrong_password) = Some alice"
    "isPassWordCorrect User0 alice (req_password alice_wrong_password) = Inr False"
    by (simp_all add: alice_wrong_password_def findOne_def alice_def User0_def User_def hash0_def)
  from a login_failure_kinds [where req = carol_login and M = User0 and now = 200 and us = "[alice, bob]"]
  have "loginuser User0 200 [alice, bob] carol_login = (Inl (ApiError 404 ''User does not exist''), [alice, bob])"
    by simp
  moreover from b login_failure_kinds [where req = alice_wrong_password and M = User0 and now = 200 and us = "[alice, bob]" and u = alice]
  have "loginuser User0 200 [alice, bob] alice_wrong_password = (Inl (ApiError 401 ''Invalid user credentials''), [alice, bob])"
    by simp
  ultimately show ?thesis using a b by simp
qed

section \<open>Verification failures of a presented token\<close>





text \<open>
  The two refusals of a string that is no token which do not depend on the verifier's
  parameter, and the one that does.
\<close>

lemma refresh_refuses_strings:
  "refreshAccessToken M refuse secret now us (present (Opaque ''garbage''))
     = (Inl (ApiError 401 ''jwt malformed''), us)"
  "refreshAccessToken M refuse0 secret now us (present (Opaque ''not.a.token''))
     = (Inl (ApiError 401 ''invalid token''), us)"
  by (simp_all add: refreshAccessToken_def refresh_check_def refresh_catch_def present_def
      incomingRefreshToken_def refuse0_def)

section \<open>Properties of refresh\<close>

lemma refresh_check_Inr:
  "refresh_check refuse secret now us t = Inr u \<Longrightarrow>
     \<exists>p. jwt_verify refuse t secret now = Inr p \<and> findById us (payload_id p) = Some u \<and> refreshToken u = Some t"
  unfolding refresh_check_def by (auto split: sum.splits option.splits if_splits)

lemma refresh_rotate_Inr:
  assumes "refresh_rotate M now us u = (Inr res, us')"
  shows "\<exists>d a r. findById us (user_id u) = Some d \<and> generateAccessToken M now d = Inr a
            \<and> generateRefreshToken M now d = Inr r
            \<and> us' = save (d\<lparr>refreshToken := Some r\<rparr>) us
            \<and> cookies res = [(''accessToken'', Tok a, options), (''refreshToken'', Undefined, options)]
            \<and> data (body res) = Obj [(''accessToken'', Tok a), (''refreshToken'', Undefined)]"
proof -
  from assms obtain tokens where g: "generateAccessAndRefereshTokens M now us (user_id u) = Inr (tokens, us')"
    unfolding refresh_rotate_def by (auto split: sum.splits prod.splits simp: Let_def)
  from generate_Inr [OF g] obtain d a r where
    d: "findById us (user_id u) = Some d" and a: "generateAccessToken M now d = Inr a"
    and r: "generateRefreshToken M now d = Inr r"
    and t: "tokens = [(''accessToken'', Tok a), (''refreshToken'', Tok r)]"
    and s: "us' = save (d\<lparr>refreshToken := Some r\<rparr>) us" by blast
  from assms g t have "res = \<lparr>status = 200,
                    cookies = [(''accessToken'', Tok a, options), (''refreshToken'', Undefined, options)],
                    body = \<lparr>statusCode = 200,
                            data = Obj [(''accessToken'', Tok a), (''refreshToken'', Undefined)],
                            response_message = ''Access token refreshed''\<rparr>\<rparr>"
    unfolding refresh_rotate_def by (simp add: Let_def get_prop_def)
  with d a r s show ?thesis by simp
qed

lemma refreshAccessToken_Inr:
  assumes "refreshAccessToken M refuse secret now us req = (Inr res, us')"
  shows "\<exists>t u. incomingRefreshToken req = Some t \<and> refresh_check refuse secret now us t = Inr u
            \<and> refresh_rotate M now us u = (Inr res, us')"
  using assms unfolding refreshAccessToken_def refresh_catch_def
  by (auto split: option.splits if_splits sum.splits prod.splits)

lemma jwt_verify_truthy: "jwt_verify refuse t secret now = Inr p \<Longrightarrow> truthy_token (Some t)"
  by (cases t) (auto split: if_splits)

lemma refresh_mismatch:
  assumes "incomingRefreshToken req = Some t" and "jwt_verify refuse t secret now = Inr p"
    and "findById us (payload_id p) = Some u" and "refreshToken u \<noteq> Some t"
  shows "refreshAccessToken M refuse secret now us req = (Inl (ApiError 401 ''Refresh token is expired or used''), us)"
  using assms jwt_verify_truthy [OF assms(2)]
  by (auto simp: refreshAccessToken_def refresh_check_def refresh_catch_def)

lemma refresh_match:
  assumes "incomingRefreshToken req = Some t" and "jwt_verify refuse t secret now = Inr p"
    and "findById us (payload_id p) = Some u" and "refreshToken u = Some t"
  shows "fst (refreshAccessToken M refuse secret now us req) \<noteq> Inl (ApiError 401 ''Refresh token is expired or used'')"
proof -
  from assms jwt_verify_truthy [OF assms(2)]
  have "fst (refreshAccessToken M refuse secret now us req) = refresh_catch (fst (refresh_rotate M now us u))"
    by (simp add: refreshAccessToken_def refresh_check_def split: prod.splits)
  then show ?thesis
    by (auto simp: refresh_rotate_def refresh_catch_def generateAccessAndRefereshTokens_def Let_def
        split: sum.splits prod.splits)
qed

text \<open>A successful refresh stores the refresh token that the generator returned.\<close>

lemma refresh_stores_generated:
  assumes "incomingRefreshToken req = Some t" and "jwt_verify refuse t secret now = Inr p"
    and "findById us (payload_id p) = Some u"
    and "refreshAccessToken M refuse secret now us req = (Inr res, us')"
  shows "\<exists>r. generateRefreshToken M now u = Inr r
           \<and> findById us' (payload_id p) = Some (u\<lparr>refreshToken := Some r\<rparr>)"
proof -
  from refreshAccessToken_Inr [OF assms(4)] obtain t' u' where
    "incomingRefreshToken req = Some t'" and c: "refresh_check refuse secret now us t' = Inr u'"
    and r: "refresh_rotate M now us u' = (Inr res, us')" by blast
  with assms(1) have tt: "t' = t" by simp
  from refresh_check_Inr [OF c] assms(2,3) tt have uu: "u' = u" by auto
  have i: "user_id u = payload_id p" using assms(3) by (rule findById_id)
  from refresh_rotate_Inr [OF r] obtain d r' where
    d: "findById us (user_id u') = Some d" and g: "generateRefreshToken M now d = Inr r'"
    and s: "us' = save (d\<lparr>refreshToken := Some r'\<rparr>) us"
    by blast
  from d uu i assms(3) have du: "d = u" by simp
  from d s uu i du have "findById us' (payload_id p) = Some (u\<lparr>refreshToken := Some r'\<rparr>)"
    by (simp add: findById_save)
  with g du show ?thesis by blast
qed

text \<open>
  Claim C1, as stated, fails: the new refresh token is the same string as the presented one
  when it is generated in the second in which that one was issued. The refresh succeeds,
  the store is as it was, and a second refresh that presents the same token succeeds too.
\<close>

theorem replayed_token_refused_counterexample:
  "answered (fst (refreshAccessToken User0 refuse0 ''refresh-key'' 100 [alice, bob] (present (refresh_at ''u1'' 100))))
   \<and> snd (refreshAccessToken User0 refuse0 ''refresh-key'' 100 [alice, bob] (present (refresh_at ''u1'' 100))) = [alice, bob]
   \<and> answered (fst (refreshAccessToken User0 refuse0 ''refresh-key'' 300
        (snd (refreshAccessToken User0 refuse0 ''refresh-key'' 100 [alice, bob] (present (refresh_at ''u1'' 100))))
        (present (refresh_at ''u1'' 100))))"
  by (simp add: deployment_defs handler_defs Let_def)

text \<open>
  Claim C1, amended. When the presented token passes verification and its subject is a
  user, the refresh fails with the error \<^verbatim>\<open>Refresh token is expired or used\<close> unless the token
  equals, as a string, the one stored for that user, and never with that error when it
  does. A successful refresh stores the refresh token that the generator returned. A second
  refresh that presents the same token, still passing verification, fails with that error
  when the generated token differs from it, and does not when the generator returned the
  same string.
\<close>

theorem refresh_rejects_token_other_than_stored:
  assumes "incomingRefreshToken req = Some t" and "jwt_verify refuse t secret now = Inr p"
    and "findById us (payload_id p) = Some u"
  shows "(refreshToken u \<noteq> Some t \<longrightarrow>
            refreshAccessToken M refuse secret now us req = (Inl (ApiError 401 ''Refresh token is expired or used''), us))
       \<and> (refreshToken u = Some t \<longrightarrow>
            fst (refreshAccessToken M refuse secret now us req) \<noteq> Inl (ApiError 401 ''Refresh token is expired or used''))
       \<and> (refreshAccessToken M refuse secret now us req = (Inr res, us') \<longrightarrow>
            (\<exists>r. generateRefreshToken M now u = Inr r
               \<and> stored_refreshToken us' (payload_id p) = Some r
               \<and> (jwt_verify refuse t secret now' = Inr p \<and> r \<noteq> t \<longrightarrow>
                    refreshAccessToken M refuse secret now' us' req
                      = (Inl (ApiError 401 ''Refresh token is expired or used''), us'))
               \<and> (jwt_verify refuse t secret now' = Inr p \<and> r = t \<longrightarrow>
                    fst (refreshAccessToken M refuse secret now' us' req)
                      \<noteq> Inl (ApiError 401 ''Refresh token is expired or used''))))"
proof (intro conjI impI)
  assume "refreshToken u \<noteq> Some t"
  with assms show "refreshAccessToken M refuse secret now us req = (Inl (ApiError 401 ''Refresh token is expired or used''), us)"
    by (rule refresh_mismatch)
next
  assume "refreshToken u = Some t"
  with assms show "fst (refreshAccessToken M refuse secret now us req) \<noteq> Inl (ApiError 401 ''Refresh token is expired or used'')"
    by (rule refresh_match)
next
  assume a: "refreshAccessToken M refuse secret now us req = (Inr res, us')"
  from refresh_stores_generated [OF assms a] obtain r where
    g: "generateRefreshToken M now u = Inr r"
    and f: "findById us' (payload_id p) = Some (u\<lparr>refreshToken := Some r\<rparr>)" by blast
  have st: "stored_refreshToken us' (payload_id p) = Some r"
    using f by (simp add: stored_refreshToken_def)
  have reused: "jwt_verify refuse t secret now' = Inr p \<and> r \<noteq> t \<longrightarrow>
                    refreshAccessToken M refuse secret now' us' req
                      = (Inl (ApiError 401 ''Refresh token is expired or used''), us')"
  proof
    assume v: "jwt_verify refuse t secret now' = Inr p \<and> r \<noteq> t"
    then have "refreshToken (u\<lparr>refreshToken := Some r\<rparr>) \<noteq> Some t" by simp
    with assms(1) v f show "refreshAccessToken M refuse secret now' us' req
                      = (Inl (ApiError 401 ''Refresh token is expired or used''), us')"
      by (intro refresh_mismatch) auto
  qed
  have again: "jwt_verify refuse t secret now' = Inr p \<and> r = t \<longrightarrow>
                    fst (refreshAccessToken M refuse secret now' us' req)
                      \<noteq> Inl (ApiError 401 ''Refresh token is expired or used'')"
  proof
    assume v: "jwt_verify refuse t secret now' = Inr p \<and> r = t"
    then have "refreshToken (u\<lparr>refreshToken := Some r\<rparr>) = Some t" by simp
    with assms(1) v f show "fst (refreshAccessToken M refuse secret now' us' req)
                      \<noteq> Inl (ApiError 401 ''Refresh token is expired or used'')"
      by (intro refresh_match) auto
  qed
  from g st reused again
  show "\<exists>r. generateRefreshToken M now u = Inr r
               \<and> stored_refreshToken us' (payload_id p) = Some r
               \<and> (jwt_verify refuse t secret now' = Inr p \<and> r \<noteq> t \<longrightarrow>
                    refreshAccessToken M refuse secret now' us' req
                      = (Inl (ApiError 401 ''Refresh token is expired or used''), us'))
               \<and> (jwt_verify refuse t secret now' = Inr p \<and> r = t \<longrightarrow>
                    fst (refreshAccessToken M refuse secret now' us' req)
                      \<noteq> Inl (ApiError 401 ''Refresh token is expired or used''))"
    by blast
qed

theorem refresh_rejects_token_other_than_stored_witness:
  "incomingRefreshToken (present reworded) = Some reworded
   \<and> jwt_verify refuse0 reworded ''refresh-key'' 200 = Inr \<lparr>payload_id = ''u1'', iat = 100, exp = 864100\<rparr>
   \<and> findById [alice, bob] ''u1'' = Some alice
   \<and> refreshToken alice \<noteq> Some reworded
   \<and> refreshAccessToken User0 refuse0 ''refresh-key'' 200 [alice, bob] (present reworded)
       = (Inl (ApiError 401 ''Refresh token is expired or used''), [alice, bob])
   \<and> refreshToken alice = Some (refresh_at ''u1'' 100)
   \<and> fst (refreshAccessToken User0 refuse0 ''refresh-key'' 200 [alice, bob] (present (refresh_at ''u1'' 100)))
       \<noteq> Inl (ApiError 401 ''Refresh token is expired or used'')
   \<and> (\<exists>res us'. refreshAccessToken User0 refuse0 ''refresh-key'' 200 [alice, bob] (present (refresh_at ''u1'' 100)) = (Inr res, us')
        \<and> generateRefreshToken User0 200 alice = Inr (refresh_at ''u1'' 200)
        \<and> stored_refreshToken us' ''u1'' = Some (refresh_at ''u1'' 200)
        \<and> jwt_verify refuse0 (refresh_at ''u1'' 100) ''refresh-key'' 300 = Inr \<lparr>payload_id = ''u1'', iat = 100, exp = 864100\<rparr>
        \<and> refresh_at ''u1'' 200 \<noteq> refresh_at ''u1'' 100
        \<and> refreshAccessToken User0 refuse0 ''refresh-key'' 300 us' (present (refresh_at ''u1'' 100))
            = (Inl (ApiError 401 ''Refresh token is expired or used''), us'))
   \<and> (\<exists>res us'. refreshAccessToken User0 refuse0 ''refresh-key'' 100 [alice, bob] (present (refresh_at ''u1'' 100)) = (Inr res, us')
        \<and> generateRefreshToken User0 100 alice = Inr (refresh_at ''u1'' 100)
        \<and> stored_refreshToken us' ''u1'' = Some (refresh_at ''u1'' 100)
        \<and> fst (refreshAccessToken User0 refuse0 ''refresh-key'' 300 us' (present (refresh_at ''u1'' 100)))
            \<noteq> Inl (ApiError 401 ''Refresh token is expired or used''))"
proof -
  let ?T = "refresh_at ''u1'' 100"
  let ?p = "\<lparr>payload_id = ''u1'', iat = 100, exp = 864100\<rparr>"
  have a: "incomingRefreshToken (present reworded) = Some reworded"
    "jwt_verify refuse0 reworded ''refresh-key'' 200 = Inr ?p"
    "findById [alice, bob] (payload_id ?p) = Some alice"
    "refreshToken alice \<noteq> Some reworded"
    by (simp_all add: present_def incomingRefreshToken_def reworded_def refresh_at_def findById_def
        alice_def signed_wording_def)
  from refresh_rejects_token_other_than_stored [OF a(1) a(2) a(3), where M = User0] a(4)
  have one: "refreshAccessToken User0 refuse0 ''refresh-key'' 200 [alice, bob] (present reworded)
       = (Inl (ApiError 401 ''Refresh token is expired or used''), [alice, bob])"
    by simp
  have b: "incomingRefreshToken (present ?T) = Some ?T"
    "jwt_verify refuse0 ?T ''refresh-key'' 200 = Inr ?p"
    "findById [alice, bob] (payload_id ?p) = Some alice"
    "jwt_verify refuse0 ?T ''refresh-key'' 300 = Inr ?p"
    "jwt_verify refuse0 ?T ''refresh-key'' 100 = Inr ?p"
    by (simp_all add: present_def incomingRefreshToken_def refresh_at_def findById_def alice_def)
  have e: "refreshToken alice = Some ?T"
    by (simp add: alice_def)
  from refresh_rejects_token_other_than_stored [OF b(1) b(2) b(3), where M = User0] e
  have two: "fst (refreshAccessToken User0 refuse0 ''refresh-key'' 200 [alice, bob] (present ?T))
       \<noteq> Inl (ApiError 401 ''Refresh token is expired or used'')"
    by blast
  have g2: "generateRefreshToken User0 200 alice = Inr (refresh_at ''u1'' 200)"
    and g1: "generateRefreshToken User0 100 alice = Inr ?T"
    by (simp_all add: deployment_defs jwt_sign_def)
  have n: "refresh_at ''u1'' 200 \<noteq> ?T"
    by (simp add: refresh_at_def)
  have "\<exists>res us'. refreshAccessToken User0 refuse0 ''refresh-key'' 200 [alice, bob] (present ?T) = (Inr res, us')"
    by (simp add: deployment_defs handler_defs Let_def)
  then obtain res us' where
    c: "refreshAccessToken User0 refuse0 ''refresh-key'' 200 [alice, bob] (present ?T) = (Inr res, us')"
    by blast
  from refresh_rejects_token_other_than_stored [OF b(1) b(2) b(3), where M = User0 and res = res
      and us' = us' and now' = 300] c g2 b(4) n
  have three: "stored_refreshToken us' ''u1'' = Some (refresh_at ''u1'' 200)
        \<and> refreshAccessToken User0 refuse0 ''refresh-key'' 300 us' (present ?T)
            = (Inl (ApiError 401 ''Refresh token is expired or used''), us')"
    by auto
  have "\<exists>res us'. refreshAccessToken User0 refuse0 ''refresh-key'' 100 [alice, bob] (present ?T) = (Inr res, us')"
    by (simp add: deployment_defs handler_defs Let_def)
  then obtain res1 us1 where
    c1: "refreshAccessToken User0 refuse0 ''refresh-key'' 100 [alice, bob] (present ?T) = (Inr res1, us1)"
    by blast
  from refresh_rejects_token_other_than_stored [OF b(1) b(5) b(3), where M = User0 and res = res1
      and us' = us1 and now' = 300] c1 g1 b(4)
  have four: "stored_refreshToken us1 ''u1'' = Some ?T
        \<and> fst (refreshAccessToken User0 refuse0 ''refresh-key'' 300 us1 (present ?T))
            \<noteq> Inl (ApiError 401 ''Refresh token is expired or used'')"
    by auto
  from a one e two have first: "incomingRefreshToken (present reworded) = Some reworded
   \<and> jwt_verify refuse0 reworded ''refresh-key'' 200 = Inr ?p
   \<and> findById [alice, bob] ''u1'' = Some alice
   \<and> refreshToken alice \<noteq> Some reworded
   \<and> refreshAccessToken User0 refuse0 ''refresh-key'' 200 [alice, bob] (present reworded)
       = (Inl (ApiError 401 ''Refresh token is expired or used''), [alice, bob])
   \<and> refreshToken alice = Some ?T
   \<and> fst (refreshAccessToken User0 refuse0 ''refresh-key'' 200 [alice, bob] (present ?T))
       \<noteq> Inl (ApiError 401 ''Refresh token is expired or used'')"
    by simp
  from c g2 three b(4) n have second: "\<exists>res us'. refreshAccessToken User0 refuse0 ''refresh-key'' 200 [alice, bob] (present ?T) = (Inr res, us')
        \<and> generateRefreshToken User0 200 alice = Inr (refresh_at ''u1'' 200)
        \<and> stored_refreshToken us' ''u1'' = Some (refresh_at ''u1'' 200)
        \<and> jwt_verify refuse0 ?T ''refresh-key'' 300 = Inr ?p
        \<and> refresh_at ''u1'' 200 \<noteq> ?T
        \<and> refreshAccessToken User0 refuse0 ''refresh-key'' 300 us' (present ?T)
            = (Inl (ApiError 401 ''Refresh token is expired or used''), us')"
    by blast
  from c1 g1 four have third: "\<exists>res us'. refreshAccessToken User0 refuse0 ''refresh-key'' 100 [alice, bob] (present ?T) = (Inr res, us')
        \<and> generateRefreshToken User0 100 alice = Inr ?T
        \<and> stored_refreshToken us' ''u1'' = Some ?T
        \<and> fst (refreshAccessToken User0 refuse0 ''refresh-key'' 300 us' (present ?T))
            \<noteq> Inl (ApiError 401 ''Refresh token is expired or used'')"
    by blast
  from first second third show ?thesis by blast
qed

text \<open>
  Claim C3. A refresh whose token matches does mint both tokens and does store the new
  refresh token, but the response does not carry it: the handler reads \<^verbatim>\<open>newRefreshToken\<close>
  from an object whose keys are \<^verbatim>\<open>accessToken\<close> and \<^verbatim>\<open>refreshToken\<close>, so the cookie and the
  body field are undefined. Only the access token is returned.
\<close>

theorem refresh_response_omits_new_refresh_token:
  assumes "refreshAccessToken M refuse secret now us req = (Inr res, us')"
  shows "\<exists>u a r. generateAccessToken M now u = Inr a \<and> generateRefreshToken M now u = Inr r
           \<and> stored_refreshToken us' (user_id u) = Some r
           \<and> body_field res ''accessToken'' = Tok a
           \<and> cookie_value res ''accessToken'' = Tok a
           \<and> body_field res ''refreshToken'' = Undefined
           \<and> cookie_value res ''refreshToken'' = Undefined"
proof -
  from refreshAccessToken_Inr [OF assms] obtain u where
    r: "refresh_rotate M now us u = (Inr res, us')" by blast
  from refresh_rotate_Inr [OF r] obtain d a r' where
    d: "findById us (user_id u) = Some d" and a: "generateAccessToken M now d = Inr a"
    and g: "generateRefreshToken M now d = Inr r'"
    and s: "us' = save (d\<lparr>refreshToken := Some r'\<rparr>) us"
    and c: "cookies res = [(''accessToken'', Tok a, options), (''refreshToken'', Undefined, options)]"
    and b: "data (body res) = Obj [(''accessToken'', Tok a), (''refreshToken'', Undefined)]"
    by blast
  have i: "user_id d = user_id u" using d by (rule findById_id)
  have st: "stored_refreshToken us' (user_id d) = Some r'"
    using d s i by (simp add: stored_refreshToken_def findById_save)
  have b1: "body_field res ''accessToken'' = Tok a" and b2: "body_field res ''refreshToken'' = Undefined"
    using b by (simp_all add: body_field_def fields_def get_prop_def)
  have c1: "cookie_value res ''accessToken'' = Tok a" and c2: "cookie_value res ''refreshToken'' = Undefined"
    using c by (simp_all add: cookie_value_def)
  show ?thesis
    by (rule exI [of _ d], rule exI [of _ a], rule exI [of _ r'])
       (simp add: a g st b1 b2 c1 c2)
qed

theorem refresh_response_omits_new_refresh_token_witness:
  "\<exists>res us'. refreshAccessToken User0 refuse0 ''refresh-key'' 200 [alice, bob] (present (refresh_at ''u1'' 100)) = (Inr res, us')
      \<and> stored_refreshToken us' ''u1'' = Some (refresh_at ''u1'' 200)
      \<and> body_field res ''accessToken'' = Tok (access_at ''u1'' 200)
      \<and> body_field res ''refreshToken'' = Undefined
      \<and> cookie_value res ''refreshToken'' = Undefined"
proof -
  have "\<exists>res us'. refreshAccessToken User0 refuse0 ''refresh-key'' 200 [alice, bob] (present (refresh_at ''u1'' 100)) = (Inr res, us')
      \<and> stored_refreshToken us' ''u1'' = Some (refresh_at ''u1'' 200)
      \<and> body_field res ''accessToken'' = Tok (access_at ''u1'' 200)"
    by (simp add: deployment_defs handler_defs stored_refreshToken_def body_field_def fields_def Let_def)
  then obtain res us' where
    h: "refreshAccessToken User0 refuse0 ''refresh-key'' 200 [alice, bob] (present (refresh_at ''u1'' 100)) = (Inr res, us')"
    and s: "stored_refreshToken us' ''u1'' = Some (refresh_at ''u1'' 200)"
    and a: "body_field res ''accessToken'' = Tok (access_at ''u1'' 200)" by blast
  from refresh_response_omits_new_refresh_token [OF h]
  have "body_field res ''refreshToken'' = Undefined \<and> cookie_value res ''refreshToken'' = Undefined"
    by blast
  with h s a show ?thesis by blast
qed

section \<open>Properties of logout\<close>

lemma logOutUser_store_unchanged: "snd (logOutUser cast us userId) = us"
  by (simp add: logOutUser_def findByIdAndUpdate_def is_operator_def schema_paths_def replace_same
      split: option.splits)

lemma logOutUser_answers_200: "\<exists>res. fst (logOutUser cast us userId) = Inr res \<and> status res = 200"
  by (simp add: logOutUser_def)

text \<open>
  Claim C2. Logout never fails, but it does not clear the stored refresh token: the update
  document has the key \<^verbatim>\<open>set\<close>, which is neither an update operator nor a path of the
  schema, so nothing is written. The refresh token of before the logout is still stored
  and a refresh that presents it afterwards succeeds.
\<close>

theorem logout_keeps_refresh_token:
  "stored_refreshToken (snd (logOutUser cast [alice, bob] ''u1'')) ''u1'' = Some (refresh_at ''u1'' 100)
   \<and> (\<exists>res us'. refreshAccessToken User0 refuse0 ''refresh-key'' 200 (snd (logOutUser cast [alice, bob] ''u1''))
                   (present (refresh_at ''u1'' 100)) = (Inr res, us'))"
  unfolding logOutUser_store_unchanged
  by (simp add: deployment_defs handler_defs stored_refreshToken_def Let_def)

section \<open>Two refresh requests at once\<close>

lemma refresh_check_truthy: "refresh_check refuse secret now us t = Inr u \<Longrightarrow> truthy_token (Some t)"
  by (cases t) (auto simp: refresh_check_def)

lemma proc_step_check:
  assumes "incomingRefreshToken req = Some t" and "refresh_check refuse secret now us t = Inr u"
  shows "proc_step M refuse secret now us (Received req) = (Compared u, us)"
  using assms refresh_check_truthy [OF assms(2)] by simp

lemma proc_step_reused:
  assumes "incomingRefreshToken req = Some t" and "jwt_verify refuse t secret now = Inr p"
    and "findById us (payload_id p) = Some u" and "refreshToken u \<noteq> Some t"
  shows "proc_step M refuse secret now us (Received req)
           = (Done (Inl (ApiError 401 ''Refresh token is expired or used'')), us)"
proof -
  have "truthy_token (Some t)" using assms(2) by (cases t) auto
  with assms show ?thesis by (auto simp: refresh_check_def refresh_catch_def)
qed

lemma proc_step_rotate:
  assumes "generateAccessAndRefereshTokens M now us (user_id u) = Inr (tokens, us')"
  shows "\<exists>res. proc_step M refuse secret now us (Compared u) = (Done (Inr res), us')"
  using assms by (simp add: refresh_rotate_def refresh_catch_def Let_def)

text \<open>A process that runs alone, both steps at one time, is the handler.\<close>

lemma run_alone_is_refreshAccessToken:
  "run M refuse secret [(0, now), (0, now)] ([Received req], us)
     = ([Done (fst (refreshAccessToken M refuse secret now us req))], snd (refreshAccessToken M refuse secret now us req))"
  by (simp add: refreshAccessToken_def split: option.splits sum.splits prod.splits)

text \<open>
  Claim C5, as stated, fails: two requests present the same valid token, both compare it
  with the stored one before either writes, and both end with a response. Neither receives
  the error; the stored token is the one the later write left.
\<close>

theorem concurrent_refresh_loser_counterexample:
  "map succeeded (fst (run User0 refuse0 ''refresh-key'' [(0, 200), (1, 201), (0, 201), (1, 202)]
        ([Received (present (refresh_at ''u1'' 100)), Received (present (refresh_at ''u1'' 100))], [alice, bob])))
     = [True, True]
   \<and> stored_refreshToken (snd (run User0 refuse0 ''refresh-key'' [(0, 200), (1, 201), (0, 201), (1, 202)]
        ([Received (present (refresh_at ''u1'' 100)), Received (present (refresh_at ''u1'' 100))], [alice, bob]))) ''u1''
     = Some (refresh_at ''u1'' 202)"
  by (simp add: deployment_defs handler_defs stored_refreshToken_def Let_def)

text \<open>
  Claim C5, amended. The write of the rotation is unconditional and comes after a separate
  read and comparison. When two requests present the same valid token and both compare
  before either writes, both succeed and the later write decides the stored token. A
  request whose comparison runs after the other's write has changed the stored token
  receives the error \<^verbatim>\<open>Refresh token is expired or used\<close>.
\<close>

theorem concurrent_refresh_both_succeed:
  assumes "incomingRefreshToken req = Some t"
    and "refresh_check refuse secret t1 us t = Inr u"
    and "generateAccessAndRefereshTokens M t3 us (user_id u) = Inr (tokensA, usA)"
  shows "(refresh_check refuse secret t2 us t = Inr u
          \<and> generateAccessAndRefereshTokens M t4 usA (user_id u) = Inr (tokensB, usB) \<longrightarrow>
          (\<exists>resA resB. run M refuse secret [(0, t1), (1, t2), (0, t3), (1, t4)] ([Received req, Received req], us)
                         = ([Done (Inr resA), Done (Inr resB)], usB)))
       \<and> (jwt_verify refuse t secret t2 = Inr p \<and> stored_refreshToken usA (user_id u) \<noteq> Some t \<longrightarrow>
          (\<exists>resA. run M refuse secret [(0, t1), (0, t3), (1, t2), (1, t4)] ([Received req, Received req], us)
                    = ([Done (Inr resA), Done (Inl (ApiError 401 ''Refresh token is expired or used''))], usA)))"
proof (intro conjI impI)
  assume b: "refresh_check refuse secret t2 us t = Inr u
          \<and> generateAccessAndRefereshTokens M t4 usA (user_id u) = Inr (tokensB, usB)"
  have s1: "proc_step M refuse secret t1 us (Received req) = (Compared u, us)"
    using assms(1,2) by (rule proc_step_check)
  have s2: "proc_step M refuse secret t2 us (Received req) = (Compared u, us)"
    using assms(1) b by (intro proc_step_check) auto
  from proc_step_rotate [OF assms(3)] obtain resA where
    s3: "proc_step M refuse secret t3 us (Compared u) = (Done (Inr resA), usA)" by blast
  from b proc_step_rotate [of M t4 usA u tokensB usB] obtain resB where
    s4: "proc_step M refuse secret t4 usA (Compared u) = (Done (Inr resB), usB)" by blast
  have "run M refuse secret [(0, t1), (1, t2), (0, t3), (1, t4)] ([Received req, Received req], us)
          = ([Done (Inr resA), Done (Inr resB)], usB)"
    using s1 s2 s3 s4 by simp
  then show "\<exists>resA resB. run M refuse secret [(0, t1), (1, t2), (0, t3), (1, t4)] ([Received req, Received req], us)
                         = ([Done (Inr resA), Done (Inr resB)], usB)"
    by blast
next
  assume c: "jwt_verify refuse t secret t2 = Inr p \<and> stored_refreshToken usA (user_id u) \<noteq> Some t"
  have s1: "proc_step M refuse secret t1 us (Received req) = (Compared u, us)"
    using assms(1,2) by (rule proc_step_check)
  from proc_step_rotate [OF assms(3)] obtain resA where
    s3: "proc_step M refuse secret t3 us (Compared u) = (Done (Inr resA), usA)" by blast
  from refresh_check_Inr [OF assms(2)] obtain p' where
    v: "jwt_verify refuse t secret t1 = Inr p'" and f: "findById us (payload_id p') = Some u" by blast
  have pp: "p' = p" using v c by (cases t) (auto split: if_splits)
  have i: "user_id u = payload_id p" using f pp by (simp add: findById_id)
  from generate_Inr [OF assms(3)] obtain d r where
    d: "findById us (user_id u) = Some d" and s: "usA = save (d\<lparr>refreshToken := Some r\<rparr>) us" by blast
  have fa: "findById usA (payload_id p) = Some (d\<lparr>refreshToken := Some r\<rparr>)"
    using d s i by (simp add: findById_save)
  with c i have n: "refreshToken (d\<lparr>refreshToken := Some r\<rparr>) \<noteq> Some t"
    by (simp add: stored_refreshToken_def)
  have s5: "proc_step M refuse secret t2 usA (Received req)
              = (Done (Inl (ApiError 401 ''Refresh token is expired or used'')), usA)"
    using assms(1) c fa n by (intro proc_step_reused) auto
  have "run M refuse secret [(0, t1), (0, t3), (1, t2), (1, t4)] ([Received req, Received req], us)
          = ([Done (Inr resA), Done (Inl (ApiError 401 ''Refresh token is expired or used''))], usA)"
    using s1 s3 s5 by simp
  then show "\<exists>resA. run M refuse secret [(0, t1), (0, t3), (1, t2), (1, t4)] ([Received req, Received req], us)
                    = ([Done (Inr resA), Done (Inl (ApiError 401 ''Refresh token is expired or used''))], usA)"
    by blast
qed

theorem concurrent_refresh_both_succeed_witness:
  "incomingRefreshToken (present (refresh_at ''u1'' 100)) = Some (refresh_at ''u1'' 100)
   \<and> refresh_check refuse0 ''refresh-key'' 200 [alice, bob] (refresh_at ''u1'' 100) = Inr alice
   \<and> refresh_check refuse0 ''refresh-key'' 201 [alice, bob] (refresh_at ''u1'' 100) = Inr alice
   \<and> generateAccessAndRefereshTokens User0 201 [alice, bob] (user_id alice) = Inr (pair_at 201, rotated 201)
   \<and> generateAccessAndRefereshTokens User0 202 (rotated 201) (user_id alice) = Inr (pair_at 202, rotated 202)
   \<and> (\<exists>resA resB. run User0 refuse0 ''refresh-key'' [(0, 200), (1, 201), (0, 201), (1, 202)]
          ([Received (present (refresh_at ''u1'' 100)), Received (present (refresh_at ''u1'' 100))], [alice, bob])
        = ([Done (Inr resA), Done (Inr resB)], rotated 202))
   \<and> jwt_verify refuse0 (refresh_at ''u1'' 100) ''refresh-key'' 201 = Inr \<lparr>payload_id = ''u1'', iat = 100, exp = 864100\<rparr>
   \<and> stored_refreshToken (rotated 201) (user_id alice) \<noteq> Some (refresh_at ''u1'' 100)
   \<and> (\<exists>resA. run User0 refuse0 ''refresh-key'' [(0, 200), (0, 201), (1, 201), (1, 202)]
          ([Received (present (refresh_at ''u1'' 100)), Received (present (refresh_at ''u1'' 100))], [alice, bob])
        = ([Done (Inr resA), Done (Inl (ApiError 401 ''Refresh token is expired or used''))], rotated 201))"
proof -
  have h1: "incomingRefreshToken (present (refresh_at ''u1'' 100)) = Some (refresh_at ''u1'' 100)"
    by (simp add: present_def incomingRefreshToken_def refresh_at_def)
  have h2: "refresh_check refuse0 ''refresh-key'' 200 [alice, bob] (refresh_at ''u1'' 100) = Inr alice"
    and h2': "refresh_check refuse0 ''refresh-key'' 201 [alice, bob] (refresh_at ''u1'' 100) = Inr alice"
    by (simp_all add: refresh_check_def refresh_at_def findById_def alice_def)
  have h3: "generateAccessAndRefereshTokens User0 201 [alice, bob] (user_id alice) = Inr (pair_at 201, rotated 201)"
    by (simp add: deployment_defs handler_defs pair_at_def rotated_def)
  have h4: "generateAccessAndRefereshTokens User0 202 (rotated 201) (user_id alice) = Inr (pair_at 202, rotated 202)"
    by (simp add: deployment_defs handler_defs pair_at_def rotated_def)
  have h5: "jwt_verify refuse0 (refresh_at ''u1'' 100) ''refresh-key'' 201 = Inr \<lparr>payload_id = ''u1'', iat = 100, exp = 864100\<rparr>"
    by (simp add: refresh_at_def)
  have h6: "stored_refreshToken (rotated 201) (user_id alice) \<noteq> Some (refresh_at ''u1'' 100)"
    by (simp add: stored_refreshToken_def rotated_def findById_def alice_def refresh_at_def)
  note t = concurrent_refresh_both_succeed [OF h1 h2 h3, where ?t2.0 = 201 and ?t4.0 = 202
      and tokensB = "pair_at 202" and usB = "rotated 202"
      and p = "\<lparr>payload_id = ''u1'', iat = 100, exp = 864100\<rparr>"]
  from t h2' h4 have a: "\<exists>resA resB. run User0 refuse0 ''refresh-key'' [(0, 200), (1, 201), (0, 201), (1, 202)]
          ([Received (present (refresh_at ''u1'' 100)), Received (present (refresh_at ''u1'' 100))], [alice, bob])
        = ([Done (Inr resA), Done (Inr resB)], rotated 202)"
    by blast
  from t h5 h6 have b: "\<exists>resA. run User0 refuse0 ''refresh-key'' [(0, 200), (0, 201), (1, 201), (1, 202)]
          ([Received (present (refresh_at ''u1'' 100)), Received (present (refresh_at ''u1'' 100))], [alice, bob])
        = ([Done (Inr resA), Done (Inl (ApiError 401 ''Refresh token is expired or used''))], rotated 201)"
    by blast
  from h1 h2 h2' h3 h4 a h5 h6 b show ?thesis by blast
qed

end
